theory Spec2Isabelle
  imports Main
begin

section \<open>JavaScript values held by a selection\<close>

text \<open>
  An offset slot of a selection holds whatever the caller passed. The values that matter
  to the code are \<open>undefined\<close> (an argument that was left out, a variable that was never
  assigned), numbers, and \<open>NaN\<close> (what \<open>Math.min\<close> and \<open>Math.max\<close> give for
  \<open>undefined\<close>). Numbers are the integers: offsets are character positions.
\<close>

datatype jsval = JUndefined | JNum int | JNaN

text \<open>lodash \<open>isNumber\<close>: true for every number, \<open>NaN\<close> included.\<close>

fun isNumber :: "jsval \<Rightarrow> bool" where
  "isNumber JUndefined = False"
| "isNumber (JNum n) = True"
| "isNumber JNaN = True"

text \<open>
  The relational operators convert \<open>undefined\<close> to \<open>NaN\<close>, and every comparison with
  \<open>NaN\<close> is false.
\<close>

fun js_lt :: "jsval \<Rightarrow> jsval \<Rightarrow> bool" where
  "js_lt (JNum a) (JNum b) = (a < b)"
| "js_lt x y = False"

fun js_le :: "jsval \<Rightarrow> jsval \<Rightarrow> bool" where
  "js_le (JNum a) (JNum b) = (a \<le> b)"
| "js_le x y = False"

definition js_gt :: "jsval \<Rightarrow> jsval \<Rightarrow> bool" where
  "js_gt x y = js_lt y x"

definition js_ge :: "jsval \<Rightarrow> jsval \<Rightarrow> bool" where
  "js_ge x y = js_le y x"

text \<open>Strict equality \<open>===\<close>: \<open>NaN\<close> is not equal to itself.\<close>

fun js_strict_eq :: "jsval \<Rightarrow> jsval \<Rightarrow> bool" where
  "js_strict_eq (JNum a) (JNum b) = (a = b)"
| "js_strict_eq JUndefined JUndefined = True"
| "js_strict_eq x y = False"

fun Math_min :: "jsval \<Rightarrow> jsval \<Rightarrow> jsval" where
  "Math_min (JNum a) (JNum b) = JNum (min a b)"
| "Math_min x y = JNaN"

fun Math_max :: "jsval \<Rightarrow> jsval \<Rightarrow> jsval" where
  "Math_max (JNum a) (JNum b) = JNum (max a b)"
| "Math_max x y = JNaN"

text \<open>\<open>!!reverse\<close> on an argument that is a boolean or was left out.\<close>

fun to_boolean :: "bool option \<Rightarrow> bool" where
  "to_boolean None = False"
| "to_boolean (Some b) = b"

section \<open>Data model\<close>

subsection \<open>Selections\<close>

type_synonym path = "string list"

text \<open>A document instance is known to a selection by reference only.\<close>

type_synonym document_ref = nat

datatype error =
    InvalidArguments          \<comment> \<open>Invalid arguments: path and startOffset are mandatory\<close>
  | DifferentProperty         \<comment> \<open>Can not expand PropertySelection to a different property.\<close>
  | NotAttached               \<comment> \<open>Selection is not attached to a document.\<close>
  | InsufficientArguments     \<comment> \<open>Insufficient arguments! mandatory fields: containerId, path, direction\<close>
  | TypeError                 \<comment> \<open>a property read or a method call on \<open>undefined\<close>\<close>

text \<open>
  The fields the constructor sets. \<open>doc\<close> is \<open>_internal.doc\<close>; the two coordinate
  adapters of \<open>_internal\<close> are views on \<open>path\<close> and the offsets and hold no data.
\<close>

record property_selection =
  path :: path
  startOffset :: jsval
  endOffset :: jsval
  reverse :: bool
  surfaceId :: "string option"
  doc :: "document_ref option"

text \<open>The object \<open>toJSON\<close> returns and \<open>fromJSON\<close> reads. A field that the object does
  not own is \<open>None\<close>; \<open>json_endOffset\<close> tells an absent key (\<open>None\<close>) from a key that is
  present (\<open>Some v\<close>), since \<open>fromJSON\<close> asks \<open>hasOwnProperty\<close>.\<close>

record json =
  json_type :: string
  json_path :: "path option"
  json_startOffset :: jsval
  json_endOffset :: "jsval option"
  json_reverse :: "bool option"
  json_surfaceId :: "string option"

text \<open>
  Modelled from the spec: the container selection (model/ContainerSelection.js is not
  among the sources). It spans from a start path and offset to an end path and offset that
  may differ.
\<close>

record container_selection =
  cs_startPath :: path
  cs_startOffset :: jsval
  cs_endPath :: path
  cs_endOffset :: jsval

text \<open>
  The operand \<open>other\<close> of a binary operation is any selection: it answers \<open>isNull\<close>
  and \<open>isContainerSelection\<close>, and a property selection answers false to both.
\<close>

datatype selection =
    NullSelection
  | PropertySel property_selection
  | ContainerSel container_selection

text \<open>
  The methods of the container selection that a property selection delegates to. Their
  code is not among the sources, so every operation takes them as a parameter.
\<close>

record container_methods =
  cs_contains :: "container_selection \<Rightarrow> property_selection \<Rightarrow> bool"
  cs_isInsideOf :: "container_selection \<Rightarrow> property_selection \<Rightarrow> bool"
  cs_overlaps :: "container_selection \<Rightarrow> property_selection \<Rightarrow> bool"
  cs_isRightAlignedWith :: "container_selection \<Rightarrow> property_selection \<Rightarrow> bool"
  cs_isLeftAlignedWith :: "container_selection \<Rightarrow> property_selection \<Rightarrow> bool"
  cs_expand :: "container_selection \<Rightarrow> property_selection \<Rightarrow> error + selection"

subsection \<open>What the merge transformation is given\<close>

text \<open>
  An address is an array; its first component is the position of the owning node among the
  container's children.
\<close>

type_synonym address = "nat list"

text \<open>
  The editing behavior, when one is supplied. A merger it hands out is a function of the
  caller's; it is known here by a handle \<open>'m\<close> and run by the collaborator
  \<open>call_merger\<close> below.
\<close>

record 'm behavior =
  canMerge :: "string \<Rightarrow> string \<Rightarrow> bool"
  getMerger :: "string \<Rightarrow> string \<Rightarrow> 'm"
  canMergeComponents :: "string \<Rightarrow> bool"
  getComponentMerger :: "string \<Rightarrow> 'm"

text \<open>
  The \<open>args\<close> object: the three mandatory fields, the optional behavior, the resulting
  selection, and the fields that \<open>extend\<close> adds on the way down. A field that is not set is
  \<open>None\<close>. Nodes are known by handles \<open>'n\<close>; \<open>===\<close> on two nodes is equality of handles.
\<close>

record ('n, 'm) args =
  containerId :: "string option"
  arg_path :: "path option"
  direction :: "string option"
  editingBehavior :: "'m behavior option"
  selection :: "selection option"
  firstAddress :: "address option"
  secondAddress :: "address option"
  first :: "'n option"
  second :: "'n option"
  node :: "'n option"

text \<open>
  What is written and logged: the document behind the write handle \<open>tx\<close>, and the lines
  given to \<open>console.info\<close>.
\<close>

record 'd world =
  document :: 'd
  console :: "string list"

datatype text_op = Insert nat string   \<comment> \<open>\<open>{ insert: { offset, value } }\<close>\<close>

text \<open>
  The collaborators: the write handle, the container, the nodes, the annotation helper and
  the registered mergers. Their code is not among the sources; they are parameters, over
  any document \<open>'d\<close>, container handle \<open>'c\<close> and node handle \<open>'n\<close>. A read takes the
  document, a write returns the new one.
\<close>

record ('d, 'c, 'n, 'm) collaborators =
  tx_get :: "'d \<Rightarrow> string option \<Rightarrow> 'c"
  getAddress :: "'d \<Rightarrow> 'c \<Rightarrow> path \<Rightarrow> address"
  getNextAddress :: "'d \<Rightarrow> 'c \<Rightarrow> address \<Rightarrow> address option"
  getPreviousAddress :: "'d \<Rightarrow> 'c \<Rightarrow> address \<Rightarrow> address option"
  getChildAt :: "'d \<Rightarrow> 'c \<Rightarrow> nat option \<Rightarrow> 'n"
  hide :: "'c \<Rightarrow> string option \<Rightarrow> 'd \<Rightarrow> 'd"
  tx_delete :: "string option \<Rightarrow> 'd \<Rightarrow> 'd"
  tx_update :: "path \<Rightarrow> text_op \<Rightarrow> 'd \<Rightarrow> 'd"
  transferAnnotations :: "path \<Rightarrow> nat \<Rightarrow> path \<Rightarrow> nat \<Rightarrow> 'd \<Rightarrow> 'd"
  node_type :: "'n \<Rightarrow> string"
  isInstanceOf :: "'n \<Rightarrow> string \<Rightarrow> bool"
  getTextPath :: "'n \<Rightarrow> path"
  getText :: "'d \<Rightarrow> 'n \<Rightarrow> string"
  call_merger :: "'m \<Rightarrow> ('n, 'm) args \<Rightarrow> 'd world \<Rightarrow> (error + ('n, 'm) args) \<times> 'd world"

section \<open>model/PropertySelection.js\<close>

text \<open>
  The constructor. \<open>path\<close> is an array or was left out (\<open>None\<close>, falsy); an array is
  truthy even when empty.
\<close>

definition PropertySelection ::
  "path option \<Rightarrow> jsval \<Rightarrow> jsval \<Rightarrow> bool option \<Rightarrow> string option \<Rightarrow> error + property_selection"
where
  "PropertySelection p start end rv sid =
     (case p of
        None \<Rightarrow> Inl InvalidArguments
      | Some p' \<Rightarrow>
          if \<not> isNumber start then Inl InvalidArguments
          else Inr \<lparr>path = p', startOffset = start, endOffset = end,
                    reverse = to_boolean rv, surfaceId = sid, doc = None\<rparr>)"

text \<open>Serialisation.\<close>

definition toJSON :: "property_selection \<Rightarrow> json" where
  "toJSON s =
     \<lparr>json_type = ''property'', json_path = Some (path s),
      json_startOffset = startOffset s, json_endOffset = Some (endOffset s),
      json_reverse = Some (reverse s), json_surfaceId = surfaceId s\<rparr>"

definition fromJSON :: "json \<Rightarrow> error + property_selection" where
  "fromJSON j =
     (let p = json_path j;
          start = json_startOffset j;
          end = (case json_endOffset j of Some e \<Rightarrow> e | None \<Rightarrow> json_startOffset j);
          rv = json_reverse j;
          sid = json_surfaceId j
      in PropertySelection p start end rv sid)"

definition getDocument :: "property_selection \<Rightarrow> error + document_ref" where
  "getDocument s = (case doc s of None \<Rightarrow> Inl NotAttached | Some d \<Rightarrow> Inr d)"

definition attach :: "property_selection \<Rightarrow> document_ref \<Rightarrow> property_selection" where
  "attach s d = s\<lparr>doc := Some d\<rparr>"

definition isCollapsed :: "property_selection \<Rightarrow> bool" where
  "isCollapsed s = js_strict_eq (startOffset s) (endOffset s)"

definition isReverse :: "property_selection \<Rightarrow> bool" where
  "isReverse s = reverse s"

definition createWithNewRange ::
  "property_selection \<Rightarrow> jsval \<Rightarrow> jsval \<Rightarrow> error + property_selection"
where
  "createWithNewRange s start end =
     (case PropertySelection (Some (path s)) start end (Some False) (surfaceId s) of
        Inl e \<Rightarrow> Inl e
      | Inr sel \<Rightarrow>
          (case doc s of
             Some d \<Rightarrow> Inr (attach sel d)
           | None \<Rightarrow> Inr sel))"

definition collapse :: "property_selection \<Rightarrow> string \<Rightarrow> error + property_selection" where
  "collapse s dir =
     (let offset = (if dir = ''left'' then startOffset s else endOffset s)
      in createWithNewRange s offset offset)"

subsection \<open>The other operand\<close>

fun isNull :: "selection \<Rightarrow> bool" where
  "isNull NullSelection = True"
| "isNull (PropertySel s) = False"
| "isNull (ContainerSel c) = False"

fun isContainerSelection :: "selection \<Rightarrow> bool" where
  "isContainerSelection NullSelection = False"
| "isContainerSelection (PropertySel s) = False"
| "isContainerSelection (ContainerSel c) = True"

text \<open>
  The fields read from \<open>other\<close>. On a property selection \<open>startPath\<close> and \<open>endPath\<close>
  are the getters that return \<open>path\<close>; the null selection has none of them.
\<close>

fun other_startPath :: "selection \<Rightarrow> path option" where
  "other_startPath NullSelection = None"
| "other_startPath (PropertySel s) = Some (path s)"
| "other_startPath (ContainerSel c) = Some (cs_startPath c)"

fun other_endPath :: "selection \<Rightarrow> path option" where
  "other_endPath NullSelection = None"
| "other_endPath (PropertySel s) = Some (path s)"
| "other_endPath (ContainerSel c) = Some (cs_endPath c)"

fun other_startOffset :: "selection \<Rightarrow> jsval" where
  "other_startOffset NullSelection = JUndefined"
| "other_startOffset (PropertySel s) = startOffset s"
| "other_startOffset (ContainerSel c) = cs_startOffset c"

fun other_endOffset :: "selection \<Rightarrow> jsval" where
  "other_endOffset NullSelection = JUndefined"
| "other_endOffset (PropertySel s) = endOffset s"
| "other_endOffset (ContainerSel c) = cs_endOffset c"

subsection \<open>Comparing and combining\<close>

text \<open>lodash \<open>isEqual\<close> on two paths is element-wise equality.\<close>

fun isInsideOf ::
  "container_methods \<Rightarrow> property_selection \<Rightarrow> selection \<Rightarrow> bool \<Rightarrow> bool"
where
  "isInsideOf cm this NullSelection strict = False"
| "isInsideOf cm this (ContainerSel c) strict = cs_contains cm c this"
| "isInsideOf cm this (PropertySel other) strict =
     (if strict then
        (path this = path other \<and>
         js_gt (startOffset this) (startOffset other) \<and>
         js_lt (endOffset this) (endOffset other))
      else
        (path this = path other \<and>
         js_ge (startOffset this) (startOffset other) \<and>
         js_le (endOffset this) (endOffset other)))"

fun contains ::
  "container_methods \<Rightarrow> property_selection \<Rightarrow> selection \<Rightarrow> bool \<Rightarrow> bool"
where
  "contains cm this NullSelection strict = False"
| "contains cm this (ContainerSel c) strict = cs_isInsideOf cm c this"
| "contains cm this (PropertySel other) strict =
     (if strict then
        (path this = path other \<and>
         js_lt (startOffset this) (startOffset other) \<and>
         js_gt (endOffset this) (endOffset other))
      else
        (path this = path other \<and>
         js_le (startOffset this) (startOffset other) \<and>
         js_ge (endOffset this) (endOffset other)))"

fun overlaps ::
  "container_methods \<Rightarrow> property_selection \<Rightarrow> selection \<Rightarrow> bool \<Rightarrow> bool"
where
  "overlaps cm this NullSelection strict = False"
| "overlaps cm this (ContainerSel c) strict = cs_overlaps cm c this"
| "overlaps cm this (PropertySel other) strict =
     (if path this \<noteq> path other then False
      else if strict then
        \<not> (js_ge (startOffset this) (endOffset other) \<or>
           js_le (endOffset this) (startOffset other))
      else
        \<not> (js_gt (startOffset this) (endOffset other) \<or>
           js_lt (endOffset this) (startOffset other)))"

fun isRightAlignedWith ::
  "container_methods \<Rightarrow> property_selection \<Rightarrow> selection \<Rightarrow> bool"
where
  "isRightAlignedWith cm this NullSelection = False"
| "isRightAlignedWith cm this (ContainerSel c) = cs_isRightAlignedWith cm c this"
| "isRightAlignedWith cm this (PropertySel other) =
     (path this = path other \<and> js_strict_eq (endOffset this) (endOffset other))"

fun isLeftAlignedWith ::
  "container_methods \<Rightarrow> property_selection \<Rightarrow> selection \<Rightarrow> bool"
where
  "isLeftAlignedWith cm this NullSelection = False"
| "isLeftAlignedWith cm this (ContainerSel c) = cs_isLeftAlignedWith cm c this"
| "isLeftAlignedWith cm this (PropertySel other) =
     (path this = path other \<and> js_strict_eq (startOffset this) (startOffset other))"

fun expand ::
  "container_methods \<Rightarrow> property_selection \<Rightarrow> selection \<Rightarrow> error + selection"
where
  "expand cm this NullSelection = Inr (PropertySel this)"
| "expand cm this (ContainerSel c) = cs_expand cm c this"
| "expand cm this (PropertySel other) =
     (if path this \<noteq> path other then Inl DifferentProperty
      else
        let newStartOffset = Math_min (startOffset this) (startOffset other);
            newEndOffset = Math_max (endOffset this) (endOffset other)
        in map_sum id PropertySel (createWithNewRange this newStartOffset newEndOffset))"

text \<open>
  \<open>truncate\<close> declares \<open>newStartOffset\<close> and \<open>newEndOffset\<close> without a value and
  assigns them in two of three branches; in the third they are still \<open>undefined\<close> when
  \<open>createWithNewRange\<close> is called.
\<close>

definition truncate :: "property_selection \<Rightarrow> selection \<Rightarrow> error + property_selection" where
  "truncate this other =
     (if isNull other then Inr this
      else if Some (path this) \<noteq> other_startPath other \<or>
              Some (path this) \<noteq> other_endPath other then Inl DifferentProperty
      else
        let (newStartOffset, newEndOffset) =
              (if js_strict_eq (startOffset this) (other_startOffset other) then
                 (other_endOffset other, endOffset this)
               else if js_strict_eq (endOffset this) (other_endOffset other) then
                 (startOffset this, other_startOffset other)
               else (JUndefined, JUndefined))
        in createWithNewRange this newStartOffset newEndOffset)"

section \<open>The merge transformation\<close>

text \<open>\<open>xs[0]\<close> in JavaScript: \<open>undefined\<close> on an empty array.\<close>

fun at0 :: "'a list \<Rightarrow> 'a option" where
  "at0 [] = None"
| "at0 (x # xs) = Some x"

text \<open>\<open>!x\<close> for a string that may have been left out: true for \<open>undefined\<close> and for the
  empty string.\<close>

fun falsy :: "string option \<Rightarrow> bool" where
  "falsy None = True"
| "falsy (Some x) = (x = [])"

text \<open>
  Modelled from the spec: \<open>tx.createSelection\<close> (model/Document.js is not among the
  sources). It takes a descriptor in the serialized selection format, where \<open>endOffset\<close>
  is optional and defaults to \<open>startOffset\<close>; the merge only ever passes descriptors of type
  property, which \<open>PropertySelection.fromJSON\<close> reads.
\<close>

definition createSelection :: "json \<Rightarrow> error + property_selection" where
  "createSelection descriptor = fromJSON descriptor"

subsection \<open>The built-in merge of two text nodes\<close>

definition mergeTextNodes ::
  "('d, 'c, 'n, 'm) collaborators \<Rightarrow> ('n, 'm) args \<Rightarrow> 'd world \<Rightarrow>
   (error + ('n, 'm) args) \<times> 'd world"
where
  "mergeTextNodes env a w =
     (case first a of
        None \<Rightarrow> (Inl TypeError, w)
      | Some fst_node \<Rightarrow>
     (case second a of
        None \<Rightarrow> (Inl TypeError, w)
      | Some snd_node \<Rightarrow>
          let d = document w;
              container = tx_get env d (containerId a);
              firstPath = getTextPath env fst_node;
              firstText = getText env d fst_node;
              firstLength = length firstText;
              secondPath = getTextPath env snd_node;
              secondText = getText env d snd_node
          in
            if firstLength = 0 then
              let d1 = hide env container (at0 firstPath) d;
                  d2 = tx_delete env (at0 firstPath) d1
              in (case createSelection
                         \<lparr>json_type = ''property'', json_path = Some secondPath,
                          json_startOffset = JNum 0, json_endOffset = None,
                          json_reverse = None, json_surfaceId = None\<rparr> of
                    Inl e \<Rightarrow> (Inl e, w\<lparr>document := d2\<rparr>)
                  | Inr sel \<Rightarrow>
                      (Inr (a\<lparr>selection := Some (PropertySel sel)\<rparr>), w\<lparr>document := d2\<rparr>))
            else
              let d1 = tx_update env firstPath (Insert firstLength secondText) d;
                  d2 = transferAnnotations env secondPath 0 firstPath firstLength d1;
                  d3 = hide env container (at0 secondPath) d2;
                  d4 = tx_delete env (at0 secondPath) d3
              in (case createSelection
                         \<lparr>json_type = ''property'', json_path = Some firstPath,
                          json_startOffset = JNum (int firstLength), json_endOffset = None,
                          json_reverse = None, json_surfaceId = None\<rparr> of
                    Inl e \<Rightarrow> (Inl e, w\<lparr>document := d4\<rparr>)
                  | Inr sel \<Rightarrow>
                      (Inr (a\<lparr>selection := Some (PropertySel sel)\<rparr>), w\<lparr>document := d4\<rparr>))))"

subsection \<open>Choosing the merger\<close>

text \<open>What \<open>_getNodeMerger\<close> returns: a merger of the behavior, or \<open>_mergeTextNodes\<close>.\<close>

datatype 'm merger = Registered 'm | MergeTextNodes

definition getNodeMerger ::
  "('d, 'c, 'n, 'm) collaborators \<Rightarrow> 'm behavior option \<Rightarrow> 'n \<Rightarrow> 'n \<Rightarrow> 'd world \<Rightarrow>
   'm merger option \<times> 'd world"
where
  "getNodeMerger env behavior nd otherNode w =
     (let registered =
            (case behavior of
               None \<Rightarrow> None
             | Some b \<Rightarrow>
                 if canMerge b (node_type env nd) (node_type env otherNode) then
                   Some (getMerger b (node_type env nd) (node_type env otherNode))
                 else if isInstanceOf env nd ''text'' \<and>
                         canMerge b ''textish'' (node_type env otherNode) then
                   Some (getMerger b ''textish'' (node_type env otherNode))
                 else if isInstanceOf env otherNode ''text'' \<and>
                         canMerge b (node_type env nd) ''textish'' then
                   Some (getMerger b (node_type env nd) ''textish'')
                 else None)
      in case registered of
           Some m \<Rightarrow> (Some (Registered m), w)
         | None \<Rightarrow>
             if isInstanceOf env nd ''text'' \<and> isInstanceOf env otherNode ''text'' then
               (Some MergeTextNodes, w)
             else
               (None,
                w\<lparr>console := console w @
                   [''No merge behavior defined for '' @ node_type env nd @ '' <- '' @
                    node_type env otherNode]\<rparr>))"

fun run_merger ::
  "('d, 'c, 'n, 'm) collaborators \<Rightarrow> 'm merger \<Rightarrow> ('n, 'm) args \<Rightarrow> 'd world \<Rightarrow>
   (error + ('n, 'm) args) \<times> 'd world"
where
  "run_merger env (Registered m) a w = call_merger env m a w"
| "run_merger env MergeTextNodes a w = mergeTextNodes env a w"

subsection \<open>Merging two components\<close>

definition mergeComponents ::
  "('d, 'c, 'n, 'm) collaborators \<Rightarrow> ('n, 'm) args \<Rightarrow> 'd world \<Rightarrow>
   (error + ('n, 'm) args) \<times> 'd world"
where
  "mergeComponents env a w =
     (case firstAddress a of
        None \<Rightarrow> (Inl TypeError, w)
      | Some fa \<Rightarrow>
     (case secondAddress a of
        None \<Rightarrow> (Inl TypeError, w)
      | Some sa \<Rightarrow>
          let container = tx_get env (document w) (containerId a);
              firstNode = getChildAt env (document w) container (at0 fa);
              secondNode = getChildAt env (document w) container (at0 sa);
              behavior = editingBehavior a
          in
            if firstNode = secondNode then
              (case behavior of
                 None \<Rightarrow> (Inr a, w)
               | Some b \<Rightarrow>
                   if canMergeComponents b (node_type env firstNode) then
                     call_merger env (getComponentMerger b (node_type env firstNode))
                       (a\<lparr>node := Some firstNode, firstAddress := Some fa,
                          secondAddress := Some sa\<rparr>) w
                   else (Inr a, w))
            else
              (case getNodeMerger env (editingBehavior a) firstNode secondNode w of
                 (Some mergeTrafo, w') \<Rightarrow>
                   run_merger env mergeTrafo
                     (a\<lparr>containerId := containerId a, first := Some firstNode,
                        second := Some secondNode\<rparr>) w'
               | (None, w') \<Rightarrow> (Inr a, w'))))"

subsection \<open>The entry point\<close>

definition merge ::
  "('d, 'c, 'n, 'm) collaborators \<Rightarrow> ('n, 'm) args \<Rightarrow> 'd world \<Rightarrow>
   (error + ('n, 'm) args) \<times> 'd world"
where
  "merge env a w =
     (if falsy (containerId a) \<or> arg_path a = None \<or> falsy (direction a) then
        (Inl InsufficientArguments, w)
      else
        let container = tx_get env (document w) (containerId a);
            address = getAddress env (document w) container (the (arg_path a))
        in
          if direction a = Some ''right'' then
            (case getNextAddress env (document w) container address of
               None \<Rightarrow> (Inr a, w)
             | Some nextAddress \<Rightarrow>
                 (case mergeComponents env
                         (a\<lparr>containerId := containerId a, firstAddress := Some address,
                            secondAddress := Some nextAddress\<rparr>) w of
                    (Inl e, w') \<Rightarrow> (Inl e, w')
                  | (Inr tmp, w') \<Rightarrow> (Inr (a\<lparr>selection := selection tmp\<rparr>), w')))
          else if direction a = Some ''left'' then
            (case getPreviousAddress env (document w) container address of
               None \<Rightarrow> (Inr a, w)
             | Some previousAdress \<Rightarrow>
                 (case mergeComponents env
                         (a\<lparr>containerId := containerId a, firstAddress := Some previousAdress,
                            secondAddress := Some address\<rparr>) w of
                    (Inl e, w') \<Rightarrow> (Inl e, w')
                  | (Inr tmp, w') \<Rightarrow> (Inr (a\<lparr>selection := selection tmp\<rparr>), w')))
          else (Inr a, w))"

section \<open>Example data\<close>

text \<open>
  Concrete selections, and a small document that meets the collaborators' contract, on
  which the theorems below are instantiated.
\<close>

definition no_container_methods :: container_methods where
  "no_container_methods =
     \<lparr>cs_contains = (\<lambda>c s. False), cs_isInsideOf = (\<lambda>c s. False),
      cs_overlaps = (\<lambda>c s. False), cs_isRightAlignedWith = (\<lambda>c s. False),
      cs_isLeftAlignedWith = (\<lambda>c s. False),
      cs_expand = (\<lambda>c s. Inr (ContainerSel c))\<rparr>"

text \<open>A reversed selection on surface \<open>body\<close>, attached to document 7.\<close>

definition example_sel :: "path \<Rightarrow> int \<Rightarrow> int \<Rightarrow> property_selection" where
  "example_sel p a b =
     \<lparr>path = p, startOffset = JNum a, endOffset = JNum b,
      reverse = True, surfaceId = Some ''body'', doc = Some 7\<rparr>"

definition example_json :: "path \<Rightarrow> int \<Rightarrow> json" where
  "example_json p n =
     \<lparr>json_type = ''property'', json_path = Some p, json_startOffset = JNum n,
      json_endOffset = None, json_reverse = None, json_surfaceId = None\<rparr>"

text \<open>
  Modelled from the spec: a document that is a store of node records with their text, the
  container's visible children in order, and annotations as ranges on text paths. A node's
  text path is its id followed by \<open>content\<close>; an address is the position of the node among
  the visible children; hiding takes a node out of the visible children and deleting takes
  its record out of the store; annotation transfer re-anchors every annotation of the
  source path that reaches the source offset onto the destination, shifted by the
  difference of the offsets.
\<close>

datatype simple_node =
  SimpleNode (n_id: string) (n_type: string) (n_textish: bool)

datatype simple_doc =
  SimpleDoc (sd_nodes: "(simple_node \<times> string) list")
            (sd_children: "simple_node list")
            (sd_annotations: "(path \<times> nat \<times> nat) list")

fun index_of :: "string option \<Rightarrow> simple_node list \<Rightarrow> nat" where
  "index_of i [] = 0"
| "index_of i (n # ns) = (if Some (n_id n) = i then 0 else Suc (index_of i ns))"

fun text_of :: "string \<Rightarrow> (simple_node \<times> string) list \<Rightarrow> string" where
  "text_of i [] = []"
| "text_of i ((n, t) # ns) = (if n_id n = i then t else text_of i ns)"

definition no_node :: simple_node where
  "no_node = SimpleNode [] [] False"

text \<open>A registered merger is known by its name; running it logs the name.\<close>

definition simple_env :: "(simple_doc, string option, simple_node, string) collaborators" where
  "simple_env =
     \<lparr>tx_get = (\<lambda>d cid. cid),
      getAddress = (\<lambda>d c p. [index_of (at0 p) (sd_children d)]),
      getNextAddress = (\<lambda>d c a.
        case a of [] \<Rightarrow> None
        | i # _ \<Rightarrow> if Suc i < length (sd_children d) then Some [Suc i] else None),
      getPreviousAddress = (\<lambda>d c a.
        case a of [] \<Rightarrow> None
        | i # _ \<Rightarrow> if 0 < i \<and> i \<le> length (sd_children d) then Some [i - 1] else None),
      getChildAt = (\<lambda>d c i.
        case i of None \<Rightarrow> no_node
        | Some k \<Rightarrow> if k < length (sd_children d) then sd_children d ! k else no_node),
      hide = (\<lambda>c i d.
        SimpleDoc (sd_nodes d) (filter (\<lambda>n. Some (n_id n) \<noteq> i) (sd_children d))
          (sd_annotations d)),
      tx_delete = (\<lambda>i d.
        SimpleDoc (filter (\<lambda>(n, t). Some (n_id n) \<noteq> i) (sd_nodes d)) (sd_children d)
          (sd_annotations d)),
      tx_update = (\<lambda>p op d.
        case op of Insert k v \<Rightarrow>
          SimpleDoc
            (map (\<lambda>(n, t). if Some (n_id n) = at0 p then (n, take k t @ v @ drop k t)
                           else (n, t)) (sd_nodes d))
            (sd_children d) (sd_annotations d)),
      transferAnnotations = (\<lambda>src srcOff dst dstOff d.
        SimpleDoc (sd_nodes d) (sd_children d)
          (map (\<lambda>(p, s, e). if p = src \<and> srcOff \<le> e
                             then (dst, max s srcOff - srcOff + dstOff, e - srcOff + dstOff)
                             else (p, s, e)) (sd_annotations d))),
      node_type = n_type,
      isInstanceOf = (\<lambda>n t. t = ''text'' \<and> n_textish n),
      getTextPath = (\<lambda>n. [n_id n, ''content'']),
      getText = (\<lambda>d n. text_of (n_id n) (sd_nodes d)),
      call_merger = (\<lambda>m a w. (Inr a, w\<lparr>console := console w @ [m]\<rparr>))\<rparr>"

definition para_node :: "string \<Rightarrow> simple_node" where
  "para_node i = SimpleNode i ''paragraph'' True"

definition figure_node :: "string \<Rightarrow> simple_node" where
  "figure_node i = SimpleNode i ''figure'' False"

text \<open>All nodes visible, one annotation on the first character of node \<open>b\<close>.\<close>

definition example_world :: "(simple_node \<times> string) list \<Rightarrow> simple_doc world" where
  "example_world ns =
     \<lparr>document = SimpleDoc ns (map fst ns) [([''b'', ''content''], 0, 1)],
      console = []\<rparr>"

definition two_paragraphs :: "string \<Rightarrow> string \<Rightarrow> (simple_node \<times> string) list" where
  "two_paragraphs ta tb = [(para_node ''a'', ta), (para_node ''b'', tb)]"

definition example_args ::
  "string option \<Rightarrow> path option \<Rightarrow> string option \<Rightarrow> (simple_node, string) args" where
  "example_args cid p dir =
     \<lparr>containerId = cid, arg_path = p, direction = dir, editingBehavior = None,
      selection = None, firstAddress = None, secondAddress = None, first = None,
      second = None, node = None\<rparr>"

text \<open>A behavior that merges exactly the listed pairs of types.\<close>

definition example_behavior :: "(string \<times> string) list \<Rightarrow> string behavior" where
  "example_behavior pairs =
     \<lparr>canMerge = (\<lambda>t1 t2. (t1, t2) \<in> set pairs),
      getMerger = (\<lambda>t1 t2. t1 @ ''+'' @ t2),
      canMergeComponents = (\<lambda>t. False),
      getComponentMerger = (\<lambda>t. t)\<rparr>"

text \<open>The arguments the built-in text merge is called with for nodes \<open>a\<close> and \<open>b\<close>.\<close>

definition example_merge_args :: "(simple_node, string) args" where
  "example_merge_args =
     (example_args (Some ''body'') None None)
       \<lparr>first := Some (para_node ''a''), second := Some (para_node ''b'')\<rparr>"

text \<open>The arguments \<open>_mergeComponents\<close> is called with for the first two children.\<close>

definition example_component_args :: "(simple_node, string) args" where
  "example_component_args =
     (example_args (Some ''body'') (Some [''f'', ''content'']) (Some ''right''))
       \<lparr>firstAddress := Some [0], secondAddress := Some [1]\<rparr>"

section \<open>Properties of property selections\<close>

subsection \<open>Auxiliary facts\<close>

lemma js_cmp_simps [simp]:
  "js_gt (JNum a) (JNum b) = (b < a)" "js_ge (JNum a) (JNum b) = (b \<le> a)"
  by (simp_all add: js_gt_def js_ge_def)

lemma js_le_of_lt: "js_lt x y \<Longrightarrow> js_le x y"
  by (cases x; cases y) simp_all

lemma isNumber_Math [simp]: "isNumber (Math_min x y)" "isNumber (Math_max x y)"
  by (cases x; cases y; simp)+

text \<open>The constructor accepts exactly a path that is present and a numeric start.\<close>

lemma PropertySelection_eq:
  "PropertySelection (Some p) a b rv sid =
     (if isNumber a then
        Inr \<lparr>path = p, startOffset = a, endOffset = b, reverse = to_boolean rv,
             surfaceId = sid, doc = None\<rparr>
      else Inl InvalidArguments)"
  by (simp add: PropertySelection_def)

lemma PropertySelection_isNumber:
  "PropertySelection p a b rv sid = Inr s \<Longrightarrow> isNumber (startOffset s)"
  by (auto simp: PropertySelection_def split: option.splits if_splits)

lemma createWithNewRange_eq:
  "createWithNewRange s a b =
     (if isNumber a then
        Inr \<lparr>path = path s, startOffset = a, endOffset = b, reverse = False,
             surfaceId = surfaceId s, doc = doc s\<rparr>
      else Inl InvalidArguments)"
  by (simp add: createWithNewRange_def PropertySelection_def attach_def split: option.splits)

lemma createWithNewRange_isNumber:
  "createWithNewRange s a b = Inr r \<Longrightarrow> isNumber (startOffset r)"
  by (auto simp: createWithNewRange_eq split: if_splits)

lemma createSelection_cursor:
  "createSelection
     \<lparr>json_type = ''property'', json_path = Some p, json_startOffset = JNum n,
      json_endOffset = None, json_reverse = None, json_surfaceId = None\<rparr> =
   Inr \<lparr>path = p, startOffset = JNum n, endOffset = JNum n, reverse = False,
        surfaceId = None, doc = None\<rparr>"
  by (simp add: createSelection_def fromJSON_def PropertySelection_def Let_def)

subsection \<open>truncate\<close>

text \<open>
  C3, as the code has it. For property selections with the same path and integer offsets:
  when the start offsets are equal, \<open>truncate\<close> returns the selection from the other's end
  to this end; otherwise, when the end offsets are equal, it returns the selection from
  this start to the other's start. In any other configuration the new offsets stay
  \<open>undefined\<close>, the constructor rejects them, and \<open>truncate\<close> fails with the
  invalid-arguments error: no selection is returned.
\<close>

theorem truncate_boundary_cases:
  "(path s1 = path t1 \<and> startOffset s1 = JNum a1 \<and> endOffset s1 = JNum b1 \<and>
    startOffset t1 = JNum a1 \<and> endOffset t1 = JNum d1 \<longrightarrow>
      truncate s1 (PropertySel t1) =
        Inr \<lparr>path = path s1, startOffset = JNum d1, endOffset = JNum b1,
             reverse = False, surfaceId = surfaceId s1, doc = doc s1\<rparr>) \<and>
   (path s2 = path t2 \<and> startOffset s2 = JNum a2 \<and> endOffset s2 = JNum b2 \<and>
    startOffset t2 = JNum c2 \<and> endOffset t2 = JNum b2 \<and> a2 \<noteq> c2 \<longrightarrow>
      truncate s2 (PropertySel t2) =
        Inr \<lparr>path = path s2, startOffset = JNum a2, endOffset = JNum c2,
             reverse = False, surfaceId = surfaceId s2, doc = doc s2\<rparr>) \<and>
   (path s3 = path t3 \<and> startOffset s3 = JNum a3 \<and> endOffset s3 = JNum b3 \<and>
    startOffset t3 = JNum c3 \<and> endOffset t3 = JNum d3 \<and> a3 \<noteq> c3 \<and> b3 \<noteq> d3 \<longrightarrow>
      truncate s3 (PropertySel t3) = Inl InvalidArguments)"
  by (simp add: truncate_def createWithNewRange_eq)

theorem truncate_boundary_cases_witness:
  "truncate (example_sel [''p1'', ''content''] 1 5)
     (PropertySel (example_sel [''p1'', ''content''] 1 3)) =
     Inr \<lparr>path = [''p1'', ''content''], startOffset = JNum 3, endOffset = JNum 5,
          reverse = False, surfaceId = Some ''body'', doc = Some 7\<rparr> \<and>
   truncate (example_sel [''p1'', ''content''] 1 5)
     (PropertySel (example_sel [''p1'', ''content''] 3 5)) =
     Inr \<lparr>path = [''p1'', ''content''], startOffset = JNum 1, endOffset = JNum 3,
          reverse = False, surfaceId = Some ''body'', doc = Some 7\<rparr> \<and>
   truncate (example_sel [''p1'', ''content''] 1 5)
     (PropertySel (example_sel [''p1'', ''content''] 2 3)) = Inl InvalidArguments"
  using truncate_boundary_cases
    [of "example_sel [''p1'', ''content''] 1 5" "example_sel [''p1'', ''content''] 1 3" 1 5 3
        "example_sel [''p1'', ''content''] 1 5" "example_sel [''p1'', ''content''] 3 5" 1 5 3
        "example_sel [''p1'', ''content''] 1 5" "example_sel [''p1'', ''content''] 2 3" 1 5 2 3]
  by (simp add: example_sel_def)

text \<open>
  The selection from 1 to 5 truncated by the selection from 2 to 3 of the same property:
  the paths match and neither boundary is shared, and the call fails instead of returning
  a selection with undefined offsets.
\<close>

theorem truncate_undefined_offsets_counterexample:
  "path (example_sel [''p1'', ''content''] 1 5) = path (example_sel [''p1'', ''content''] 2 3) \<and>
   \<not> js_strict_eq (startOffset (example_sel [''p1'', ''content''] 1 5))
        (startOffset (example_sel [''p1'', ''content''] 2 3)) \<and>
   \<not> js_strict_eq (endOffset (example_sel [''p1'', ''content''] 1 5))
        (endOffset (example_sel [''p1'', ''content''] 2 3)) \<and>
   truncate (example_sel [''p1'', ''content''] 1 5)
     (PropertySel (example_sel [''p1'', ''content''] 2 3)) = Inl InvalidArguments"
  by (simp add: example_sel_def truncate_def createWithNewRange_eq)

subsection \<open>overlaps\<close>

text \<open>
  C4, as the code has it. For property selections \<open>s\<close> and \<open>t\<close> with the same path and
  integer offsets, the non-strict test is the negation of
  \<open>s.startOffset > t.endOffset \<or> s.endOffset < t.startOffset\<close>, so two selections that
  only touch at a boundary overlap; the strict test is the negation of
  \<open>s.startOffset \<ge> t.endOffset \<or> s.endOffset \<le> t.startOffset\<close>, which is the non-strict
  test with the two boundary touches excluded.
\<close>

theorem overlaps_strictness:
  assumes "path s = path t"
    and "startOffset s = JNum a" and "endOffset s = JNum b"
    and "startOffset t = JNum c" and "endOffset t = JNum d"
  shows "overlaps cm s (PropertySel t) False = (\<not> (a > d \<or> b < c)) \<and>
         overlaps cm s (PropertySel t) True = (\<not> (a \<ge> d \<or> b \<le> c)) \<and>
         overlaps cm s (PropertySel t) True =
           (overlaps cm s (PropertySel t) False \<and> a \<noteq> d \<and> b \<noteq> c)"
  using assms by auto

theorem overlaps_strictness_witness:
  "overlaps no_container_methods (example_sel [''p1'', ''content''] 0 2)
     (PropertySel (example_sel [''p1'', ''content''] 2 4)) False \<and>
   \<not> overlaps no_container_methods (example_sel [''p1'', ''content''] 0 2)
       (PropertySel (example_sel [''p1'', ''content''] 2 4)) True"
  using overlaps_strictness
    [of "example_sel [''p1'', ''content''] 0 2" "example_sel [''p1'', ''content''] 2 4"
        0 2 2 4 no_container_methods]
  by (simp add: example_sel_def)

text \<open>
  The selection from 0 to 2 and the selection from 2 to 4 of the same property: the
  non-strict test answers true, the negation of
  \<open>s.startOffset \<ge> t.endOffset \<or> s.endOffset \<le> t.startOffset\<close> is false.
\<close>

theorem overlaps_nonstrict_counterexample:
  "path (example_sel [''p1'', ''content''] 0 2) = path (example_sel [''p1'', ''content''] 2 4) \<and>
   overlaps no_container_methods (example_sel [''p1'', ''content''] 0 2)
     (PropertySel (example_sel [''p1'', ''content''] 2 4)) False \<noteq>
   (\<not> (js_ge (startOffset (example_sel [''p1'', ''content''] 0 2))
            (endOffset (example_sel [''p1'', ''content''] 2 4)) \<or>
       js_le (endOffset (example_sel [''p1'', ''content''] 0 2))
            (startOffset (example_sel [''p1'', ''content''] 2 4))))"
  by (simp add: example_sel_def)

subsection \<open>expand\<close>

text \<open>
  C5. For property selections \<open>s\<close> and \<open>t\<close> with the same path, \<open>s.expand(t)\<close> returns a
  new selection on that path from \<open>Math.min\<close> of the start offsets to \<open>Math.max\<close> of the
  end offsets, which for integer offsets are their minimum and maximum; when the paths
  differ, it fails with the error that a property selection can not be expanded to a
  different property.
\<close>

theorem expand_min_max:
  "(path s = path t \<longrightarrow>
      expand cm s (PropertySel t) =
        Inr (PropertySel
               \<lparr>path = path s,
                startOffset = Math_min (startOffset s) (startOffset t),
                endOffset = Math_max (endOffset s) (endOffset t),
                reverse = False, surfaceId = surfaceId s, doc = doc s\<rparr>)) \<and>
   (path s = path t \<and> startOffset s = JNum a \<and> endOffset s = JNum b \<and>
    startOffset t = JNum c \<and> endOffset t = JNum d \<longrightarrow>
      expand cm s (PropertySel t) =
        Inr (PropertySel
               \<lparr>path = path s, startOffset = JNum (min a c), endOffset = JNum (max b d),
                reverse = False, surfaceId = surfaceId s, doc = doc s\<rparr>)) \<and>
   (path s \<noteq> path u \<longrightarrow> expand cm s (PropertySel u) = Inl DifferentProperty)"
  by (simp add: createWithNewRange_eq)

theorem expand_min_max_witness:
  "expand no_container_methods (example_sel [''p1'', ''content''] 3 6)
     (PropertySel (example_sel [''p1'', ''content''] 1 4)) =
     Inr (PropertySel
            \<lparr>path = [''p1'', ''content''], startOffset = JNum 1, endOffset = JNum 6,
             reverse = False, surfaceId = Some ''body'', doc = Some 7\<rparr>) \<and>
   expand no_container_methods (example_sel [''p1'', ''content''] 3 6)
     (PropertySel (example_sel [''p2'', ''content''] 1 4)) = Inl DifferentProperty"
  using expand_min_max
    [of "example_sel [''p1'', ''content''] 3 6" "example_sel [''p1'', ''content''] 1 4"
        no_container_methods 3 6 1 4 "example_sel [''p2'', ''content''] 1 4"]
  by (simp add: example_sel_def)

subsection \<open>contains and isInsideOf\<close>

text \<open>
  C6. For property selections \<open>s\<close> and \<open>t\<close> with the same path, \<open>s.contains(t)\<close> and
  \<open>t.isInsideOf(s)\<close> without the strict flag return the same value, and each strict
  variant implies its non-strict one.
\<close>

theorem contains_isInsideOf_consistent:
  "path s = path t \<Longrightarrow>
   contains cm s (PropertySel t) False = isInsideOf cm t (PropertySel s) False \<and>
   (contains cm s (PropertySel t) True \<longrightarrow> contains cm s (PropertySel t) False) \<and>
   (isInsideOf cm t (PropertySel s) True \<longrightarrow> isInsideOf cm t (PropertySel s) False)"
  by (auto simp: js_gt_def js_ge_def js_le_of_lt)

theorem contains_isInsideOf_consistent_witness:
  "path (example_sel [''p1'', ''content''] 0 10) = path (example_sel [''p1'', ''content''] 2 5) \<and>
   contains no_container_methods (example_sel [''p1'', ''content''] 0 10)
     (PropertySel (example_sel [''p1'', ''content''] 2 5)) True \<and>
   contains no_container_methods (example_sel [''p1'', ''content''] 0 10)
     (PropertySel (example_sel [''p1'', ''content''] 2 5)) False \<and>
   isInsideOf no_container_methods (example_sel [''p1'', ''content''] 2 5)
     (PropertySel (example_sel [''p1'', ''content''] 0 10)) True \<and>
   isInsideOf no_container_methods (example_sel [''p1'', ''content''] 2 5)
     (PropertySel (example_sel [''p1'', ''content''] 0 10)) False"
  using contains_isInsideOf_consistent
    [of "example_sel [''p1'', ''content''] 0 10" "example_sel [''p1'', ''content''] 2 5"
        no_container_methods]
  by (simp add: example_sel_def)

subsection \<open>toJSON and fromJSON\<close>

text \<open>
  C7. For every property selection \<open>s\<close> (its start offset is a number, as the constructor
  demands), \<open>fromJSON(s.toJSON())\<close> returns a selection with the path, start offset, end
  offset, reverse flag and surfaceId of \<open>s\<close>; it is \<open>s\<close> itself when \<open>s\<close> is as the
  constructor returned it, and \<open>s\<close> without its document when one was attached. When the
  JSON object has no \<open>endOffset\<close>, the end offset of the result is the start offset, and for
  an integer start offset the result is collapsed.
\<close>

theorem fromJSON_toJSON_roundtrip:
  "(isNumber (startOffset s) \<longrightarrow> fromJSON (toJSON s) = Inr (s\<lparr>doc := None\<rparr>)) \<and>
   (PropertySelection p0 a0 b0 rv0 sid0 = Inr s0 \<longrightarrow>
      fromJSON (toJSON s0) = Inr s0 \<and> fromJSON (toJSON (attach s0 d0)) = Inr s0) \<and>
   (json_endOffset j = None \<and> fromJSON j = Inr r \<longrightarrow>
      startOffset r = json_startOffset j \<and> endOffset r = json_startOffset j) \<and>
   (json_endOffset j' = None \<and> json_path j' = Some p \<and> json_startOffset j' = JNum n \<longrightarrow>
      (\<exists>r'. fromJSON j' = Inr r' \<and> path r' = p \<and> startOffset r' = JNum n \<and>
            endOffset r' = JNum n \<and> isCollapsed r'))"
  by (auto simp: fromJSON_def toJSON_def PropertySelection_def isCollapsed_def Let_def
                 attach_def
           split: option.splits if_splits)

theorem fromJSON_toJSON_roundtrip_witness:
  "fromJSON (toJSON (example_sel [''p1'', ''content''] 3 6)) =
     Inr ((example_sel [''p1'', ''content''] 3 6)\<lparr>doc := None\<rparr>) \<and>
   PropertySelection (Some [''p1'', ''content'']) (JNum 3) JUndefined (Some True) None =
     Inr \<lparr>path = [''p1'', ''content''], startOffset = JNum 3, endOffset = JUndefined,
          reverse = True, surfaceId = None, doc = None\<rparr> \<and>
   fromJSON (toJSON \<lparr>path = [''p1'', ''content''], startOffset = JNum 3,
                     endOffset = JUndefined, reverse = True, surfaceId = None, doc = None\<rparr>) =
     Inr \<lparr>path = [''p1'', ''content''], startOffset = JNum 3, endOffset = JUndefined,
          reverse = True, surfaceId = None, doc = None\<rparr> \<and>
   json_endOffset (example_json [''p1'', ''content''] 4) = None \<and>
   fromJSON (example_json [''p1'', ''content''] 4) =
     Inr \<lparr>path = [''p1'', ''content''], startOffset = JNum 4, endOffset = JNum 4,
          reverse = False, surfaceId = None, doc = None\<rparr> \<and>
   isCollapsed \<lparr>path = [''p1'', ''content''], startOffset = JNum 4, endOffset = JNum 4,
                reverse = False, surfaceId = None, doc = None\<rparr>"
  using fromJSON_toJSON_roundtrip
    [of "example_sel [''p1'', ''content''] 3 6"
        "Some [''p1'', ''content'']" "JNum 3" JUndefined "Some True" None
        "\<lparr>path = [''p1'', ''content''], startOffset = JNum 3, endOffset = JUndefined,
          reverse = True, surfaceId = None, doc = None\<rparr>" 9
        "example_json [''p1'', ''content''] 4"
        "\<lparr>path = [''p1'', ''content''], startOffset = JNum 4, endOffset = JNum 4,
          reverse = False, surfaceId = None, doc = None\<rparr>"
        "example_json [''p1'', ''content''] 4" "[''p1'', ''content'']" 4]
  by (simp add: example_sel_def example_json_def PropertySelection_eq fromJSON_def Let_def
        isCollapsed_def)

subsection \<open>createWithNewRange and the operations built on it\<close>

lemma createWithNewRange_frame:
  "createWithNewRange s a b = Inr r \<Longrightarrow>
   \<not> reverse r \<and> path r = path s \<and> surfaceId r = surfaceId s \<and> doc r = doc s"
  by (auto simp: createWithNewRange_eq split: if_splits)

text \<open>
  C10, as the code has it. Every property selection derived through
  \<open>createWithNewRange\<close> has its reverse flag set to false, even when the original was
  reversed, and has the path, the surfaceId and the attached document (if any) of the
  original. That covers every result of \<open>collapse\<close>, every property selection that
  \<open>expand\<close> returns for a property selection as operand, and every result of \<open>truncate\<close>
  for an operand that is not the null selection.
\<close>

theorem createWithNewRange_resets_reverse:
  "(createWithNewRange s a b = Inr r \<longrightarrow>
      \<not> reverse r \<and> path r = path s \<and> surfaceId r = surfaceId s \<and> doc r = doc s) \<and>
   (collapse s dir = Inr r1 \<longrightarrow>
      \<not> reverse r1 \<and> path r1 = path s \<and> surfaceId r1 = surfaceId s \<and> doc r1 = doc s) \<and>
   (expand cm s (PropertySel t) = Inr (PropertySel r2) \<longrightarrow>
      \<not> reverse r2 \<and> path r2 = path s \<and> surfaceId r2 = surfaceId s \<and> doc r2 = doc s) \<and>
   (\<not> isNull other \<and> truncate s other = Inr r3 \<longrightarrow>
      \<not> reverse r3 \<and> path r3 = path s \<and> surfaceId r3 = surfaceId s \<and> doc r3 = doc s)"
proof -
  have c1: "createWithNewRange s a b = Inr r \<longrightarrow>
      \<not> reverse r \<and> path r = path s \<and> surfaceId r = surfaceId s \<and> doc r = doc s"
    using createWithNewRange_frame by blast
  have c2: "collapse s dir = Inr r1 \<longrightarrow>
      \<not> reverse r1 \<and> path r1 = path s \<and> surfaceId r1 = surfaceId s \<and> doc r1 = doc s"
    unfolding collapse_def Let_def using createWithNewRange_frame by blast
  have c3: "expand cm s (PropertySel t) = Inr (PropertySel r2) \<longrightarrow>
      \<not> reverse r2 \<and> path r2 = path s \<and> surfaceId r2 = surfaceId s \<and> doc r2 = doc s"
  proof
    assume e: "expand cm s (PropertySel t) = Inr (PropertySel r2)"
    then have "path s = path t"
      by (simp split: if_splits)
    with e have "createWithNewRange s (Math_min (startOffset s) (startOffset t))
                   (Math_max (endOffset s) (endOffset t)) = Inr r2"
      by (simp add: createWithNewRange_eq)
    then show "\<not> reverse r2 \<and> path r2 = path s \<and> surfaceId r2 = surfaceId s \<and>
               doc r2 = doc s"
      by (rule createWithNewRange_frame)
  qed
  have c4: "\<not> isNull other \<and> truncate s other = Inr r3 \<longrightarrow>
      \<not> reverse r3 \<and> path r3 = path s \<and> surfaceId r3 = surfaceId s \<and> doc r3 = doc s"
  proof
    assume "\<not> isNull other \<and> truncate s other = Inr r3"
    then obtain x y where "createWithNewRange s x y = Inr r3"
      by (auto simp: truncate_def Let_def split: if_splits)
    then show "\<not> reverse r3 \<and> path r3 = path s \<and> surfaceId r3 = surfaceId s \<and>
               doc r3 = doc s"
      by (rule createWithNewRange_frame)
  qed
  from c1 c2 c3 c4 show ?thesis
    by (intro conjI)
qed

theorem createWithNewRange_resets_reverse_witness:
  "reverse (example_sel [''p1'', ''content''] 3 6) \<and>
   createWithNewRange (example_sel [''p1'', ''content''] 3 6) (JNum 0) (JNum 1) =
     Inr \<lparr>path = [''p1'', ''content''], startOffset = JNum 0, endOffset = JNum 1,
          reverse = False, surfaceId = Some ''body'', doc = Some 7\<rparr> \<and>
   collapse (example_sel [''p1'', ''content''] 3 6) ''left'' =
     Inr \<lparr>path = [''p1'', ''content''], startOffset = JNum 3, endOffset = JNum 3,
          reverse = False, surfaceId = Some ''body'', doc = Some 7\<rparr> \<and>
   expand no_container_methods (example_sel [''p1'', ''content''] 3 6)
     (PropertySel (example_sel [''p1'', ''content''] 1 4)) =
     Inr (PropertySel
            \<lparr>path = [''p1'', ''content''], startOffset = JNum 1, endOffset = JNum 6,
             reverse = False, surfaceId = Some ''body'', doc = Some 7\<rparr>) \<and>
   \<not> isNull (PropertySel (example_sel [''p1'', ''content''] 3 4)) \<and>
   truncate (example_sel [''p1'', ''content''] 3 6)
     (PropertySel (example_sel [''p1'', ''content''] 3 4)) =
     Inr \<lparr>path = [''p1'', ''content''], startOffset = JNum 4, endOffset = JNum 6,
          reverse = False, surfaceId = Some ''body'', doc = Some 7\<rparr>"
  using createWithNewRange_resets_reverse
    [of "example_sel [''p1'', ''content''] 3 6" "JNum 0" "JNum 1"
        "\<lparr>path = [''p1'', ''content''], startOffset = JNum 0, endOffset = JNum 1,
          reverse = False, surfaceId = Some ''body'', doc = Some 7\<rparr>"
        "''left''"
        "\<lparr>path = [''p1'', ''content''], startOffset = JNum 3, endOffset = JNum 3,
          reverse = False, surfaceId = Some ''body'', doc = Some 7\<rparr>"
        no_container_methods "example_sel [''p1'', ''content''] 1 4"
        "\<lparr>path = [''p1'', ''content''], startOffset = JNum 1, endOffset = JNum 6,
          reverse = False, surfaceId = Some ''body'', doc = Some 7\<rparr>"
        "PropertySel (example_sel [''p1'', ''content''] 3 4)"
        "\<lparr>path = [''p1'', ''content''], startOffset = JNum 4, endOffset = JNum 6,
          reverse = False, surfaceId = Some ''body'', doc = Some 7\<rparr>"]
  by (simp add: example_sel_def createWithNewRange_eq collapse_def truncate_def Let_def)

text \<open>
  A reversed selection expanded by the null selection: \<open>expand\<close> returns the selection
  itself, reverse flag set.
\<close>

theorem expand_null_keeps_reverse_counterexample:
  "expand no_container_methods (example_sel [''p1'', ''content''] 3 6) NullSelection =
     Inr (PropertySel (example_sel [''p1'', ''content''] 3 6)) \<and>
   reverse (example_sel [''p1'', ''content''] 3 6)"
  by (simp add: example_sel_def)

section \<open>Properties of the merge transformation\<close>

subsection \<open>The built-in text merge\<close>

text \<open>
  C1. The built-in text merge of two nodes \<open>first\<close> and \<open>second\<close>, each addressed by the
  first component of its text path. If the text of \<open>first\<close> has length 0, \<open>first\<close> is
  hidden from the container and then deleted from the document, and the returned selection
  is a collapsed property selection at offset 0 on the text path of \<open>second\<close>. Otherwise
  the full text of \<open>second\<close> is inserted into the text of \<open>first\<close> at the original length
  of \<open>first\<close>, the annotations of \<open>second\<close>'s text from offset 0 are transferred onto
  \<open>first\<close>'s text at that length, \<open>second\<close> is hidden and then deleted, and the returned
  selection is a collapsed property selection on the text path of \<open>first\<close> at its
  original length.
\<close>

theorem mergeTextNodes_effect:
  "(first a = Some f \<and> second a = Some s \<and> length (getText env (document w) f) = 0 \<longrightarrow>
      (\<exists>sel. mergeTextNodes env a w =
               (Inr (a\<lparr>selection := Some (PropertySel sel)\<rparr>),
                w\<lparr>document :=
                    tx_delete env (at0 (getTextPath env f))
                      (hide env (tx_get env (document w) (containerId a))
                         (at0 (getTextPath env f)) (document w))\<rparr>) \<and>
             path sel = getTextPath env s \<and> startOffset sel = JNum 0 \<and> isCollapsed sel)) \<and>
   (first a' = Some f' \<and> second a' = Some s' \<and> length (getText env (document w') f') = n \<and>
    n \<noteq> 0 \<longrightarrow>
      (\<exists>sel. mergeTextNodes env a' w' =
               (Inr (a'\<lparr>selection := Some (PropertySel sel)\<rparr>),
                w'\<lparr>document :=
                    tx_delete env (at0 (getTextPath env s'))
                      (hide env (tx_get env (document w') (containerId a'))
                         (at0 (getTextPath env s'))
                         (transferAnnotations env (getTextPath env s') 0
                            (getTextPath env f') n
                            (tx_update env (getTextPath env f')
                               (Insert n (getText env (document w') s'))
                               (document w'))))\<rparr>) \<and>
             path sel = getTextPath env f' \<and> startOffset sel = JNum (int n) \<and>
             isCollapsed sel))"
  by (auto simp: mergeTextNodes_def createSelection_cursor Let_def isCollapsed_def)

text \<open>
  On the example document: merging the empty \<open>a\<close> with \<open>b = bar\<close> leaves \<open>b\<close> alone
  in the store and in the container, with the cursor at the start of \<open>b\<close>; merging
  \<open>a = foo\<close> with \<open>b = bar\<close> leaves \<open>a = foobar\<close>, moves the annotation of \<open>b\<close> from
  0..1 to 3..4 on \<open>a\<close>, and puts the cursor at 3 on \<open>a\<close>.
\<close>

theorem mergeTextNodes_effect_witness:
  "mergeTextNodes simple_env example_merge_args (example_world (two_paragraphs [] ''bar'')) =
     (Inr (example_merge_args
             \<lparr>selection :=
                Some (PropertySel
                        \<lparr>path = [''b'', ''content''], startOffset = JNum 0, endOffset = JNum 0,
                         reverse = False, surfaceId = None, doc = None\<rparr>)\<rparr>),
      \<lparr>document = SimpleDoc [(para_node ''b'', ''bar'')] [para_node ''b'']
                    [([''b'', ''content''], 0, 1)],
       console = []\<rparr>) \<and>
   mergeTextNodes simple_env example_merge_args (example_world (two_paragraphs ''foo'' ''bar'')) =
     (Inr (example_merge_args
             \<lparr>selection :=
                Some (PropertySel
                        \<lparr>path = [''a'', ''content''], startOffset = JNum 3, endOffset = JNum 3,
                         reverse = False, surfaceId = None, doc = None\<rparr>)\<rparr>),
      \<lparr>document = SimpleDoc [(para_node ''a'', ''foobar'')] [para_node ''a'']
                    [([''a'', ''content''], 3, 4)],
       console = []\<rparr>)"
  using mergeTextNodes_effect
    [of example_merge_args "para_node ''a''" "para_node ''b''" simple_env
        "example_world (two_paragraphs [] ''bar'')"
        example_merge_args "para_node ''a''" "para_node ''b''"
        "example_world (two_paragraphs ''foo'' ''bar'')" 3]
  by (simp add: mergeTextNodes_def createSelection_cursor Let_def example_merge_args_def
        example_args_def example_world_def two_paragraphs_def simple_env_def para_node_def)

subsection \<open>Choosing the merger\<close>

text \<open>
  C2. For two distinct nodes the merger is chosen in this order: the merger registered for
  the exact pair of node types; else, when the first node is textish, the merger
  registered for \<open>textish\<close> and the second type; else, when the second node is textish, the
  merger registered for the first type and \<open>textish\<close>; else, when no behavior is supplied
  or none of these match, and both nodes are textish, the built-in text merge; else none:
  that is logged, and the merge of the two components returns its arguments with the
  document untouched, not an error.
\<close>

theorem getNodeMerger_priority:
  "(canMerge b1 (node_type env n1) (node_type env o1) \<longrightarrow>
      getNodeMerger env (Some b1) n1 o1 w =
        (Some (Registered (getMerger b1 (node_type env n1) (node_type env o1))), w)) \<and>
   (\<not> canMerge b2 (node_type env n2) (node_type env o2) \<and>
    isInstanceOf env n2 ''text'' \<and> canMerge b2 ''textish'' (node_type env o2) \<longrightarrow>
      getNodeMerger env (Some b2) n2 o2 w =
        (Some (Registered (getMerger b2 ''textish'' (node_type env o2))), w)) \<and>
   (\<not> canMerge b3 (node_type env n3) (node_type env o3) \<and>
    \<not> (isInstanceOf env n3 ''text'' \<and> canMerge b3 ''textish'' (node_type env o3)) \<and>
    isInstanceOf env o3 ''text'' \<and> canMerge b3 (node_type env n3) ''textish'' \<longrightarrow>
      getNodeMerger env (Some b3) n3 o3 w =
        (Some (Registered (getMerger b3 (node_type env n3) ''textish'')), w)) \<and>
   (isInstanceOf env n4 ''text'' \<and> isInstanceOf env o4 ''text'' \<longrightarrow>
      getNodeMerger env None n4 o4 w = (Some MergeTextNodes, w)) \<and>
   (\<not> canMerge b5 (node_type env n5) (node_type env o5) \<and>
    \<not> canMerge b5 ''textish'' (node_type env o5) \<and>
    \<not> canMerge b5 (node_type env n5) ''textish'' \<and>
    isInstanceOf env n5 ''text'' \<and> isInstanceOf env o5 ''text'' \<longrightarrow>
      getNodeMerger env (Some b5) n5 o5 w = (Some MergeTextNodes, w)) \<and>
   (\<not> (isInstanceOf env n6 ''text'' \<and> isInstanceOf env o6 ''text'') \<longrightarrow>
      getNodeMerger env None n6 o6 w =
        (None, w\<lparr>console := console w @
                  [''No merge behavior defined for '' @ node_type env n6 @ '' <- '' @
                   node_type env o6]\<rparr>)) \<and>
   (\<not> canMerge b7 (node_type env n7) (node_type env o7) \<and>
    \<not> (isInstanceOf env n7 ''text'' \<and> canMerge b7 ''textish'' (node_type env o7)) \<and>
    \<not> (isInstanceOf env o7 ''text'' \<and> canMerge b7 (node_type env n7) ''textish'') \<and>
    \<not> (isInstanceOf env n7 ''text'' \<and> isInstanceOf env o7 ''text'') \<longrightarrow>
      getNodeMerger env (Some b7) n7 o7 w =
        (None, w\<lparr>console := console w @
                  [''No merge behavior defined for '' @ node_type env n7 @ '' <- '' @
                   node_type env o7]\<rparr>)) \<and>
   (firstAddress a = Some fa \<and> secondAddress a = Some sa \<and>
    getChildAt env (document w') (tx_get env (document w') (containerId a)) (at0 fa) = n8 \<and>
    getChildAt env (document w') (tx_get env (document w') (containerId a)) (at0 sa) = o8 \<and>
    n8 \<noteq> o8 \<and> getNodeMerger env (editingBehavior a) n8 o8 w' = (None, w8) \<longrightarrow>
      mergeComponents env a w' = (Inr a, w8) \<and> document w8 = document w')"
proof (intro conjI impI)
  assume "firstAddress a = Some fa \<and> secondAddress a = Some sa \<and>
    getChildAt env (document w') (tx_get env (document w') (containerId a)) (at0 fa) = n8 \<and>
    getChildAt env (document w') (tx_get env (document w') (containerId a)) (at0 sa) = o8 \<and>
    n8 \<noteq> o8 \<and> getNodeMerger env (editingBehavior a) n8 o8 w' = (None, w8)"
  then show "mergeComponents env a w' = (Inr a, w8)"
    by (simp add: mergeComponents_def Let_def)
next
  assume "firstAddress a = Some fa \<and> secondAddress a = Some sa \<and>
    getChildAt env (document w') (tx_get env (document w') (containerId a)) (at0 fa) = n8 \<and>
    getChildAt env (document w') (tx_get env (document w') (containerId a)) (at0 sa) = o8 \<and>
    n8 \<noteq> o8 \<and> getNodeMerger env (editingBehavior a) n8 o8 w' = (None, w8)"
  then have "getNodeMerger env (editingBehavior a) n8 o8 w' = (None, w8)"
    by simp
  then show "document w8 = document w'"
    by (cases "editingBehavior a")
       (auto simp: getNodeMerger_def Let_def split: option.splits if_splits)
qed (auto simp add: getNodeMerger_def)

text \<open>
  On the example nodes: a paragraph is textish, a figure is not. One behavior for each
  registered rule, the built-in merge with no behavior and with a behavior that registers
  nothing for paragraphs, and no merger for a figure and a paragraph; the document whose
  children are a figure and a paragraph is left as it was, with one line logged.
\<close>

theorem getNodeMerger_priority_witness:
  "getNodeMerger simple_env (Some (example_behavior [(''paragraph'', ''figure'')]))
     (para_node ''a'') (figure_node ''f'') (example_world []) =
     (Some (Registered ''paragraph+figure''), example_world []) \<and>
   getNodeMerger simple_env (Some (example_behavior [(''textish'', ''figure'')]))
     (para_node ''a'') (figure_node ''f'') (example_world []) =
     (Some (Registered ''textish+figure''), example_world []) \<and>
   getNodeMerger simple_env (Some (example_behavior [(''figure'', ''textish'')]))
     (figure_node ''f'') (para_node ''b'') (example_world []) =
     (Some (Registered ''figure+textish''), example_world []) \<and>
   getNodeMerger simple_env None (para_node ''a'') (para_node ''b'') (example_world []) =
     (Some MergeTextNodes, example_world []) \<and>
   getNodeMerger simple_env (Some (example_behavior [(''figure'', ''figure'')]))
     (para_node ''a'') (para_node ''b'') (example_world []) =
     (Some MergeTextNodes, example_world []) \<and>
   getNodeMerger simple_env None (figure_node ''f'') (para_node ''b'') (example_world []) =
     (None, (example_world [])
              \<lparr>console := [''No merge behavior defined for figure <- paragraph'']\<rparr>) \<and>
   getNodeMerger simple_env (Some (example_behavior [(''paragraph'', ''figure'')]))
     (figure_node ''f'') (figure_node ''g'') (example_world []) =
     (None, (example_world [])
              \<lparr>console := [''No merge behavior defined for figure <- figure'']\<rparr>) \<and>
   mergeComponents simple_env example_component_args
     (example_world [(figure_node ''f'', []), (para_node ''b'', ''bar'')]) =
     (Inr example_component_args,
      (example_world [(figure_node ''f'', []), (para_node ''b'', ''bar'')])
        \<lparr>console := [''No merge behavior defined for figure <- paragraph'']\<rparr>)"
  using getNodeMerger_priority
    [of "example_behavior [(''paragraph'', ''figure'')]" simple_env
        "para_node ''a''" "figure_node ''f''" "example_world []"
        "example_behavior [(''textish'', ''figure'')]" "para_node ''a''" "figure_node ''f''"
        "example_behavior [(''figure'', ''textish'')]" "figure_node ''f''" "para_node ''b''"
        "para_node ''a''" "para_node ''b''"
        "example_behavior [(''figure'', ''figure'')]" "para_node ''a''" "para_node ''b''"
        "figure_node ''f''" "para_node ''b''"
        "example_behavior [(''paragraph'', ''figure'')]" "figure_node ''f''" "figure_node ''g''"
        example_component_args "[0]" "[1]"
        "example_world [(figure_node ''f'', []), (para_node ''b'', ''bar'')]"
        "figure_node ''f''" "para_node ''b''"
        "(example_world [(figure_node ''f'', []), (para_node ''b'', ''bar'')])
           \<lparr>console := [''No merge behavior defined for figure <- paragraph'']\<rparr>"]
  by (simp add: getNodeMerger_def mergeComponents_def Let_def example_behavior_def
        example_world_def example_component_args_def example_args_def simple_env_def
        para_node_def figure_node_def)

subsection \<open>The entry point\<close>

text \<open>
  C8. A merge at a position that has no neighbor in the requested direction (to the left
  where \<open>getPreviousAddress\<close> gives no address, to the right where \<open>getNextAddress\<close>
  gives none) does nothing: it returns the arguments it was given, so no new selection, and
  leaves the document and the log as they were.
\<close>

theorem merge_without_neighbor:
  "(\<not> falsy (containerId a) \<and> arg_path a = Some p \<and> direction a = Some ''left'' \<and>
    getPreviousAddress env (document w) (tx_get env (document w) (containerId a))
      (getAddress env (document w) (tx_get env (document w) (containerId a)) p) = None \<longrightarrow>
      merge env a w = (Inr a, w)) \<and>
   (\<not> falsy (containerId a') \<and> arg_path a' = Some p' \<and> direction a' = Some ''right'' \<and>
    getNextAddress env (document w') (tx_get env (document w') (containerId a'))
      (getAddress env (document w') (tx_get env (document w') (containerId a')) p') = None \<longrightarrow>
      merge env a' w' = (Inr a', w'))"
  by (simp add: merge_def Let_def)

text \<open>
  On the example document with children \<open>a\<close> and \<open>b\<close>: merging to the left at \<open>a\<close> and
  to the right at \<open>b\<close>.
\<close>

theorem merge_without_neighbor_witness:
  "getPreviousAddress simple_env (document (example_world (two_paragraphs ''foo'' ''bar'')))
     (Some ''body'')
     (getAddress simple_env (document (example_world (two_paragraphs ''foo'' ''bar'')))
        (Some ''body'') [''a'', ''content'']) = None \<and>
   merge simple_env (example_args (Some ''body'') (Some [''a'', ''content'']) (Some ''left''))
     (example_world (two_paragraphs ''foo'' ''bar'')) =
     (Inr (example_args (Some ''body'') (Some [''a'', ''content'']) (Some ''left'')),
      example_world (two_paragraphs ''foo'' ''bar'')) \<and>
   getNextAddress simple_env (document (example_world (two_paragraphs ''foo'' ''bar'')))
     (Some ''body'')
     (getAddress simple_env (document (example_world (two_paragraphs ''foo'' ''bar'')))
        (Some ''body'') [''b'', ''content'']) = None \<and>
   merge simple_env (example_args (Some ''body'') (Some [''b'', ''content'']) (Some ''right''))
     (example_world (two_paragraphs ''foo'' ''bar'')) =
     (Inr (example_args (Some ''body'') (Some [''b'', ''content'']) (Some ''right'')),
      example_world (two_paragraphs ''foo'' ''bar''))"
  using merge_without_neighbor
    [of "example_args (Some ''body'') (Some [''a'', ''content'']) (Some ''left'')"
        "[''a'', ''content'']" simple_env "example_world (two_paragraphs ''foo'' ''bar'')"
        "example_args (Some ''body'') (Some [''b'', ''content'']) (Some ''right'')"
        "[''b'', ''content'']" "example_world (two_paragraphs ''foo'' ''bar'')"]
  by (simp add: example_args_def example_world_def two_paragraphs_def simple_env_def
        para_node_def)

text \<open>
  C9. When \<open>containerId\<close>, \<open>path\<close> or \<open>direction\<close> is missing, \<open>merge\<close> fails with the
  insufficient-arguments error whatever the collaborators and the document are, and the
  document and the log are as they were: nothing was read or written before the failure.
\<close>

theorem merge_mandatory_fields:
  "(containerId a1 = None \<longrightarrow> merge env a1 w = (Inl InsufficientArguments, w)) \<and>
   (arg_path a2 = None \<longrightarrow> merge env a2 w = (Inl InsufficientArguments, w)) \<and>
   (direction a3 = None \<longrightarrow> merge env a3 w = (Inl InsufficientArguments, w))"
  by (simp add: merge_def)

theorem merge_mandatory_fields_witness:
  "containerId (example_args None (Some [''a'', ''content'']) (Some ''left'')) = None \<and>
   arg_path (example_args (Some ''body'') None (Some ''left'')) = None \<and>
   direction (example_args (Some ''body'') (Some [''a'', ''content'']) None) = None \<and>
   merge simple_env (example_args None (Some [''a'', ''content'']) (Some ''left''))
     (example_world (two_paragraphs ''foo'' ''bar'')) =
     (Inl InsufficientArguments, example_world (two_paragraphs ''foo'' ''bar'')) \<and>
   merge simple_env (example_args (Some ''body'') None (Some ''left''))
     (example_world (two_paragraphs ''foo'' ''bar'')) =
     (Inl InsufficientArguments, example_world (two_paragraphs ''foo'' ''bar'')) \<and>
   merge simple_env (example_args (Some ''body'') (Some [''a'', ''content'']) None)
     (example_world (two_paragraphs ''foo'' ''bar'')) =
     (Inl InsufficientArguments, example_world (two_paragraphs ''foo'' ''bar''))"
  using merge_mandatory_fields
    [of "example_args None (Some [''a'', ''content'']) (Some ''left'')"
        simple_env "example_world (two_paragraphs ''foo'' ''bar'')"
        "example_args (Some ''body'') None (Some ''left'')"
        "example_args (Some ''body'') (Some [''a'', ''content'']) None"]
  by (simp add: example_args_def)

end
